theory Spec2Isabelle
  imports Complex_Main "HOL-Library.Word"
begin

section \<open>Transaction records (Tasks/Transactions/Transaction.h)\<close>

text \<open>
  The broken-down time of \<^verbatim>\<open>class Timestamp\<close> (Core/Time.h). January is month 0 and the
  first day of a month is day 0. The fields are \<^verbatim>\<open>int16_t\<close> and \<^verbatim>\<open>int32_t\<close>; nothing below
  computes with them beyond storing parsed two- and four-digit numbers, so they are
  integers here.
\<close>

record Timestamp =
  year :: int
  month :: int
  day :: int
  hour :: int
  minute :: int
  second :: int

text \<open>\<^verbatim>\<open>Timestamp()\<close>: the initial values of the fields, UNIX time 0.\<close>

definition Timestamp_init :: Timestamp where
  "Timestamp_init = \<lparr>year = 1970, month = 0, day = 0, hour = 0, minute = 0, second = 0\<rparr>"

text \<open>\<^verbatim>\<open>class RpcSync\<close>: whether a boundary request was handed over and whether it was answered.\<close>

record RpcSync =
  requested :: bool
  confirmed :: bool

definition RpcSync_init :: RpcSync where
  "RpcSync_init = \<lparr>requested = False, confirmed = False\<rparr>"

definition setRequested :: "RpcSync \<Rightarrow> RpcSync" where
  "setRequested r = r\<lparr>requested := True\<rparr>"

definition isRequested :: "RpcSync \<Rightarrow> bool" where
  "isRequested r = requested r"

definition confirm :: "RpcSync \<Rightarrow> RpcSync" where
  "confirm r = r\<lparr>confirmed := True\<rparr>"

definition isConfirmed :: "RpcSync \<Rightarrow> bool" where
  "isConfirmed r = confirmed r"

definition RpcSync_isCompleted :: "RpcSync \<Rightarrow> bool" where
  "RpcSync_isCompleted r = (isRequested r \<and> isConfirmed r)"

record ClientTransactionStart =
  start_timestamp :: Timestamp
  start_meter :: int
  reservationId :: int

record ServerTransactionStart =
  transactionId :: int

record TransactionStart =
  start_rpc :: RpcSync
  start_client :: ClientTransactionStart
  start_server :: ServerTransactionStart

record ClientTransactionStop =
  stop_idTag :: string
  stop_timestamp :: Timestamp
  stop_meter :: int
  reason :: string

text \<open>\<^verbatim>\<open>class ServerTransactionStop\<close> holds no data, so \<^verbatim>\<open>TransactionStop\<close> has no field for it.\<close>

record TransactionStop =
  stop_rpc :: RpcSync
  stop_client :: ClientTransactionStop

record ChargingSession =
  idTag :: string
  authorized :: bool
  deauthorized :: bool
  session_timestamp :: Timestamp
  txProfileId :: int
  active :: bool

text \<open>
  \<^verbatim>\<open>class Transaction\<close>. The reference to the \<^verbatim>\<open>ConnectorTransactionStore\<close> is left out: no
  function below reaches through it.
\<close>

record Transaction =
  session :: ChargingSession
  start :: TransactionStart
  stop :: TransactionStop
  connectorId :: nat
  txNr :: nat
  silent :: bool

text \<open>
  The constructor with the default member initialisers. \<^verbatim>\<open>MIN_TIME\<close> is declared
  \<^verbatim>\<open>extern\<close> in Time.h and defined elsewhere, so it is a parameter.
\<close>

definition Transaction_init :: "Timestamp \<Rightarrow> nat \<Rightarrow> nat \<Rightarrow> bool \<Rightarrow> Transaction" where
  "Transaction_init MIN_TIME cId nr sil =
     \<lparr>session = \<lparr>idTag = [], authorized = False, deauthorized = False,
                 session_timestamp = MIN_TIME, txProfileId = -1, active = True\<rparr>,
      start = \<lparr>start_rpc = RpcSync_init,
               start_client = \<lparr>start_timestamp = MIN_TIME, start_meter = -1, reservationId = -1\<rparr>,
               start_server = \<lparr>transactionId = -1\<rparr>\<rparr>,
      stop = \<lparr>stop_rpc = RpcSync_init,
              stop_client = \<lparr>stop_idTag = [], stop_timestamp = MIN_TIME, stop_meter = -1,
                             reason = []\<rparr>\<rparr>,
      connectorId = cId, txNr = nr, silent = sil\<rparr>"

definition getStartRpcSync :: "Transaction \<Rightarrow> RpcSync" where
  "getStartRpcSync tx = start_rpc (start tx)"

definition getStopRpcSync :: "Transaction \<Rightarrow> RpcSync" where
  "getStopRpcSync tx = stop_rpc (stop tx)"

definition isAborted :: "Transaction \<Rightarrow> bool" where
  "isAborted tx = (\<not> requested (start_rpc (start tx)) \<and> \<not> active (session tx))"

definition isCompleted :: "Transaction \<Rightarrow> bool" where
  "isCompleted tx = isConfirmed (stop_rpc (stop tx))"

definition isPreparing :: "Transaction \<Rightarrow> bool" where
  "isPreparing tx = (active (session tx) \<and> \<not> isRequested (start_rpc (start tx)))"

definition isRunning :: "Transaction \<Rightarrow> bool" where
  "isRunning tx = (isRequested (start_rpc (start tx)) \<and> \<not> isRequested (stop_rpc (stop tx)))"

definition isActive :: "Transaction \<Rightarrow> bool" where
  "isActive tx = active (session tx)"

definition endSession :: "Transaction \<Rightarrow> Transaction" where
  "endSession tx = tx\<lparr>session := (session tx)\<lparr>active := False\<rparr>\<rparr>"

definition isSilent :: "Transaction \<Rightarrow> bool" where
  "isSilent tx = silent tx"

section \<open>Connections (Core/Connection.cpp)\<close>

text \<open>
  Ticks are the values of \<^verbatim>\<open>ao_tick_ms()\<close>, an \<^verbatim>\<open>unsigned long\<close> count of milliseconds.
  The functions of this section only store a tick, so a tick is a natural number and the
  value that \<^verbatim>\<open>ao_tick_ms()\<close> returns at the call is the argument \<open>now\<close>.
\<close>

type_synonym tick = nat

text \<open>
  A receive callback takes the payload and its length and says whether the message was
  processed. Its effects outside the socket are not part of the model; that it was
  called, and with what, is. A callback is taken not to send through the socket that
  calls it.
\<close>

type_synonym ReceiveTXTcallback = "string \<Rightarrow> nat \<Rightarrow> bool"

text \<open>
  \<^verbatim>\<open>class OcppEchoSocket\<close>. \<^verbatim>\<open>receiveTXT\<close> is a \<^verbatim>\<open>std::function\<close>, which may be empty:
  \<open>None\<close> is the empty one.
\<close>

record OcppEchoSocket =
  connected :: bool
  receiveTXT :: "ReceiveTXTcallback option"
  lastRecv :: tick

text \<open>
  \<^verbatim>\<open>OcppEchoSocket::sendTXT\<close>. The result is the returned \<^verbatim>\<open>bool\<close>, the calls made to
  the receive callback (payload and length, in order) and the socket afterwards.
\<close>

definition sendTXT ::
  "tick \<Rightarrow> string \<Rightarrow> OcppEchoSocket \<Rightarrow> bool \<times> (string \<times> nat) list \<times> OcppEchoSocket" where
  "sendTXT now out s =
     (if \<not> connected s then (True, [], s)
      else (case receiveTXT s of
              Some cb \<Rightarrow> (cb out (length out), [(out, length out)], s\<lparr>lastRecv := now\<rparr>)
            | None \<Rightarrow> (False, [], s)))"

definition OcppEchoSocket_setReceiveTXTcallback ::
  "ReceiveTXTcallback option \<Rightarrow> OcppEchoSocket \<Rightarrow> OcppEchoSocket" where
  "OcppEchoSocket_setReceiveTXTcallback cb s = s\<lparr>receiveTXT := cb\<rparr>"

definition OcppEchoSocket_getLastRecv :: "OcppEchoSocket \<Rightarrow> tick" where
  "OcppEchoSocket_getLastRecv s = lastRecv s"

text \<open>
  The event types of the WebSockets library that the handler of
  \<^verbatim>\<open>OcppClientSocket::setReceiveTXTcallback\<close> names; \<open>WStype_OTHER\<close> stands for every
  other value of the library's enumeration, which the handler's \<^verbatim>\<open>default\<close> takes.
\<close>

datatype WStype_t =
  WStype_DISCONNECTED
  | WStype_CONNECTED
  | WStype_TEXT
  | WStype_BIN
  | WStype_PING
  | WStype_PONG
  | WStype_FRAGMENT_TEXT_START
  | WStype_OTHER

text \<open>
  The handler that \<^verbatim>\<open>OcppClientSocket::setReceiveTXTcallback\<close> installs with
  \<^verbatim>\<open>wsock->onEvent\<close>. It captures the callback and a reference to the socket's
  \<^verbatim>\<open>lastRecv\<close>; the result is the value of \<^verbatim>\<open>lastRecv\<close> after the event. Logging is
  left out.
\<close>

definition onEvent ::
  "ReceiveTXTcallback \<Rightarrow> tick \<Rightarrow> WStype_t \<Rightarrow> string \<Rightarrow> nat \<Rightarrow> tick \<Rightarrow> tick" where
  "onEvent callback now type payload len captureLastRecv =
     (case type of
        WStype_DISCONNECTED \<Rightarrow> captureLastRecv
      | WStype_CONNECTED \<Rightarrow> now
      | WStype_TEXT \<Rightarrow> (if callback payload len then now else captureLastRecv)
      | WStype_BIN \<Rightarrow> captureLastRecv
      | WStype_PING \<Rightarrow> now
      | WStype_PONG \<Rightarrow> now
      | WStype_FRAGMENT_TEXT_START \<Rightarrow> captureLastRecv
      | WStype_OTHER \<Rightarrow> captureLastRecv)"

text \<open>The events that are a frame received from the peer: text, binary, ping and pong.\<close>

definition is_frame :: "WStype_t \<Rightarrow> bool" where
  "is_frame type = (type = WStype_TEXT \<or> type = WStype_BIN \<or> type = WStype_PING \<or> type = WStype_PONG)"

text \<open>Two receive callbacks for concrete runs: one processes every message, one none.\<close>

definition accept_all :: ReceiveTXTcallback where
  "accept_all payload len = True"

definition reject_all :: ReceiveTXTcallback where
  "reject_all payload len = False"

section \<open>The connector count (Tasks/ChargeControl/ChargeControlCommon.cpp)\<close>

text \<open>
  The default that the constructor of \<^verbatim>\<open>ChargeControlCommon\<close> hands to
  \<^verbatim>\<open>declareConfiguration<int>("NumberOfConnectors", ...)\<close>: the expression
  \<^verbatim>\<open>numConn >= 1 ? numConn - 1 : 0\<close> on \<^verbatim>\<open>unsigned int\<close>, whose width is the type
  parameter.
\<close>

definition numberOfConnectors_default :: "'a::len word \<Rightarrow> 'a word" where
  "numberOfConnectors_default numConn = (if numConn \<ge> 1 then numConn - 1 else 0)"

section \<open>Scalar time (Core/Time.h)\<close>

text \<open>\<^verbatim>\<open>otime_t\<close> is \<^verbatim>\<open>int32_t\<close>: a word read as two's complement by \<open>sint\<close>.\<close>

type_synonym otime_t = "32 word"

definition OTIME_MAX :: otime_t where
  "OTIME_MAX = 0x7FFFFFFF"

definition INFINITY_THLD :: otime_t where
  "INFINITY_THLD = OTIME_MAX - (400 * 24 * 3600)"

section \<open>Setting the time from a date string (Core/Time.h)\<close>

text \<open>
  Time.h declares \<^verbatim>\<open>Timestamp::setTime\<close> and \<^verbatim>\<open>Time::setTime\<close> and documents them; their
  bodies are in a file that is not among the sources. The definitions of this section
  follow the documentation in Time.h and the specification.
\<close>

text \<open>
  Modelled from the spec: the reading of decimal digits that \<^verbatim>\<open>Timestamp::setTime\<close>
  needs, whose code is missing: whether a character is one of 0 to 9, the value of a
  digit, and the numbers that two and four digits write.
\<close>

definition is_digit :: "char \<Rightarrow> bool" where
  "is_digit c = (48 \<le> (of_char c :: nat) \<and> (of_char c :: nat) \<le> 57)"

definition digit_value :: "char \<Rightarrow> int" where
  "digit_value c = int (of_char c) - 48"

definition number2 :: "char \<Rightarrow> char \<Rightarrow> int" where
  "number2 a b = digit_value a * 10 + digit_value b"

definition number4 :: "char \<Rightarrow> char \<Rightarrow> char \<Rightarrow> char \<Rightarrow> int" where
  "number4 a b c d =
     digit_value a * 1000 + digit_value b * 100 + digit_value c * 10 + digit_value d"

text \<open>
  Modelled from the spec: the body of \<^verbatim>\<open>Timestamp::setTime\<close> is missing. The
  specification has \<^verbatim>\<open>parse_iso\<close> accept the first 19 characters \<^verbatim>\<open>YYYY-MM-DDTHH:MM:SS\<close>;
  Time.h says that only the first 19 characters are processed, that the subsequent ones
  are ignored, that the result is true on a successful time set and false if the string
  is not a JSON date string, and that January is month 0 and the first day of a month is
  day 0. The string is the characters before the terminating 0. Which field values the
  check admits is given by neither text, so it is the parameter \<open>in_range\<close>. The result
  is the returned \<^verbatim>\<open>bool\<close> and the timestamp afterwards.
\<close>

definition Timestamp_setTime ::
  "(Timestamp \<Rightarrow> bool) \<Rightarrow> string \<Rightarrow> Timestamp \<Rightarrow> bool \<times> Timestamp" where
  "Timestamp_setTime in_range s ts =
     (if length s < 19 then (False, ts)
      else if \<not> (is_digit (s ! 0) \<and> is_digit (s ! 1) \<and> is_digit (s ! 2) \<and> is_digit (s ! 3)
                \<and> s ! 4 = CHR ''-''
                \<and> is_digit (s ! 5) \<and> is_digit (s ! 6)
                \<and> s ! 7 = CHR ''-''
                \<and> is_digit (s ! 8) \<and> is_digit (s ! 9)
                \<and> s ! 10 = CHR ''T''
                \<and> is_digit (s ! 11) \<and> is_digit (s ! 12)
                \<and> s ! 13 = CHR '':''
                \<and> is_digit (s ! 14) \<and> is_digit (s ! 15)
                \<and> s ! 16 = CHR '':''
                \<and> is_digit (s ! 17) \<and> is_digit (s ! 18))
      then (False, ts)
      else
        (let parsed = \<lparr>year = number4 (s ! 0) (s ! 1) (s ! 2) (s ! 3),
                        month = number2 (s ! 5) (s ! 6) - 1,
                        day = number2 (s ! 8) (s ! 9) - 1,
                        hour = number2 (s ! 11) (s ! 12),
                        minute = number2 (s ! 14) (s ! 15),
                        second = number2 (s ! 17) (s ! 18)\<rparr>
         in if in_range parsed then (True, parsed) else (False, ts)))"

text \<open>
  \<^verbatim>\<open>class Time\<close> with the fields of Time.h. The system clock is a function object; the
  value it returns at a call is an argument of the function that calls it.
\<close>

record Time =
  ocpp_basetime :: Timestamp
  system_basetime :: otime_t
  timeIsSet :: bool
  currentTime :: Timestamp
  previousUpdate :: otime_t

definition Time_init :: Time where
  "Time_init = \<lparr>ocpp_basetime = Timestamp_init, system_basetime = 0, timeIsSet = False,
                 currentTime = Timestamp_init, previousUpdate = -1\<rparr>"

definition isValid :: "Time \<Rightarrow> bool" where
  "isValid t = timeIsSet t"

text \<open>
  Modelled from the spec: the body of \<^verbatim>\<open>Time::setTime\<close> is missing. By the specification
  setting the clock parses the string, and on success makes the parsed time the base
  time, the current reading of the system clock the base of the system time, and the
  clock valid; a parse failure leaves the clock invalid.
\<close>

definition Time_setTime ::
  "(Timestamp \<Rightarrow> bool) \<Rightarrow> otime_t \<Rightarrow> string \<Rightarrow> Time \<Rightarrow> bool \<times> Time" where
  "Time_setTime in_range system_clock_now s t =
     (case Timestamp_setTime in_range s Timestamp_init of
        (False, _) \<Rightarrow> (False, t)
      | (True, input_time) \<Rightarrow>
          (True, t\<lparr>ocpp_basetime := input_time, system_basetime := system_clock_now,
                   timeIsSet := True\<rparr>))"

text \<open>
  Modelled from the spec: the words of the specification, for comparison with
  \<open>Timestamp_setTime\<close>. A string of the shape \<^verbatim>\<open>YYYY-MM-DDTHH:MM:SS\<close> has a digit
  wherever the pattern has one of the letters Y, M, D, H and S, and the pattern's own
  character everywhere else; its fields are the decimal numbers of the digit groups,
  month and day counted from 0.
\<close>

definition shape_char :: "char \<Rightarrow> char \<Rightarrow> bool" where
  "shape_char t c = (if t \<in> set ''YMDHS'' then is_digit c else c = t)"

definition has_date_shape :: "string \<Rightarrow> bool" where
  "has_date_shape p = list_all2 shape_char ''YYYY-MM-DDTHH:MM:SS'' p"

definition decimal :: "string \<Rightarrow> int" where
  "decimal ds = foldl (\<lambda>n c. n * 10 + digit_value c) 0 ds"

definition date_fields :: "string \<Rightarrow> Timestamp" where
  "date_fields p =
     \<lparr>year = decimal (take 4 p),
      month = decimal (take 2 (drop 5 p)) - 1,
      day = decimal (take 2 (drop 8 p)) - 1,
      hour = decimal (take 2 (drop 11 p)),
      minute = decimal (take 2 (drop 14 p)),
      second = decimal (take 2 (drop 17 p))\<rparr>"

text \<open>
  Modelled from the spec: one admissible choice of \<open>in_range\<close>, for concrete runs. The
  data model of the specification has the year from 1970 on, the month in 0..11 and the
  day in 0..30; hours, minutes and seconds are those of a clock.
\<close>

definition calendar_ranges :: "Timestamp \<Rightarrow> bool" where
  "calendar_ranges ts =
     (1970 \<le> year ts \<and> 0 \<le> month ts \<and> month ts \<le> 11 \<and> 0 \<le> day ts \<and> day ts \<le> 30
      \<and> 0 \<le> hour ts \<and> hour ts < 24 \<and> 0 \<le> minute ts \<and> minute ts < 60
      \<and> 0 \<le> second ts \<and> second ts < 60)"


section \<open>Transactions before the clock is valid (tests/ChargingSessions.cpp)\<close>

text \<open>
  tests/ChargingSessions.cpp begins, ends and reboots transactions while the clock is
  not set and looks at the StartTransaction and StopTransaction requests that follow.
  The code it drives (the clock's arithmetic, the transaction store and the two operations)
  is not among the sources, so the definitions of this section follow the specification
  (sections 3 and 4.6 and the scenarios S4 to S6). Wall time is counted in seconds and
  monotonic time in milliseconds, as a \<open>tick\<close>.
\<close>

text \<open>
  Modelled from the spec: the clock (section 3), whose code is missing. It is the triple
  of the wall time at which it was set, the tick at which it was set and whether it was
  set at all.
\<close>

record Clock =
  base_ocpp :: int
  base_tick :: tick
  clock_valid :: bool

text \<open>Modelled from the spec: the clock of a run that has not set it yet.\<close>

definition Clock_init :: Clock where
  "Clock_init = \<lparr>base_ocpp = 0, base_tick = 0, clock_valid = False\<rparr>"

text \<open>
  Modelled from the spec: setting the clock (section 3), whose code is missing: the base
  time is the given wall time, the base tick the current tick, and the clock is valid.
\<close>

definition Clock_set :: "int \<Rightarrow> tick \<Rightarrow> Clock \<Rightarrow> Clock" where
  "Clock_set wallclock now_tick c =
     c\<lparr>base_ocpp := wallclock, base_tick := now_tick, clock_valid := True\<rparr>"

text \<open>
  Modelled from the spec: the wall time of a tick (section 3), whose code is missing. From
  the base tick on it is \<^verbatim>\<open>base_ocpp + (now_tick - base_tick)/1000\<close>; a tick before the
  base tick is back-dated to \<^verbatim>\<open>base_ocpp - (base_tick - event_tick)/1000\<close>. Timestamps
  are whole seconds, so the division is the integer one.
\<close>

definition Clock_time :: "Clock \<Rightarrow> tick \<Rightarrow> int" where
  "Clock_time c t =
     (if base_tick c \<le> t then base_ocpp c + int ((t - base_tick c) div 1000)
      else base_ocpp c - int ((base_tick c - t) div 1000))"

text \<open>
  Modelled from the spec: the time of a transaction boundary (section 4.6, pre-boot
  transactions), whose representation in the code is missing. It is a wall time, or it
  is anchored to the tick at which the boundary occurred when the clock was not valid.
\<close>

datatype boundary_time = Wall int | Anchored tick

text \<open>
  Modelled from the spec: the time recorded for a boundary that occurs now (section 4.6:
  \<^verbatim>\<open>clock.now()\<close>, or tick-anchored if the clock is invalid).
\<close>

definition boundary_now :: "Clock \<Rightarrow> tick \<Rightarrow> boundary_time" where
  "boundary_now c now = (if clock_valid c then Wall (Clock_time c now) else Anchored now)"

text \<open>
  Modelled from the spec: rewriting a boundary time to wall time (section 4.6): a
  tick-anchored time becomes the wall time that the clock gives that tick.
\<close>

definition to_wall :: "Clock \<Rightarrow> boundary_time \<Rightarrow> int" where
  "to_wall c b = (case b of Wall t \<Rightarrow> t | Anchored k \<Rightarrow> Clock_time c k)"

text \<open>
  Modelled from the spec: a transaction in the store, whose code is missing: the record
  of Transaction.h with the times of its two boundaries. \<open>None\<close> is a time that was
  never set or cannot be recovered. The times are kept beside the record because the
  arithmetic of \<open>Timestamp\<close> is not among the sources.
\<close>

record TxEntry =
  entry_tx :: Transaction
  start_at :: "boundary_time option"
  stop_at :: "boundary_time option"

text \<open>
  Modelled from the spec: \<^verbatim>\<open>begin_authorized\<close> (section 4.6), whose code is missing: a
  new transaction with the given tag, its session active and authorized. The
  \<open>Timestamp\<close> fields of the record are not used; the times are those of the entry.
\<close>

definition begin_authorized :: "nat \<Rightarrow> nat \<Rightarrow> string \<Rightarrow> TxEntry" where
  "begin_authorized cId nr tag =
     (let tx = Transaction_init Timestamp_init cId nr False
      in \<lparr>entry_tx = tx\<lparr>session := (session tx)\<lparr>idTag := tag, authorized := True\<rparr>\<rparr>,
          start_at = None, stop_at = None\<rparr>)"

text \<open>
  Modelled from the spec: starting a transaction (section 4.6, starting conditions),
  whose code is missing. For an active, authorized session that has not started, on a
  connector without a plug sensor: the start time is the current time and
  \<^verbatim>\<open>start.rpc.requested\<close> is set. Meter values are left out.
\<close>

definition start_transaction :: "Clock \<Rightarrow> tick \<Rightarrow> TxEntry \<Rightarrow> TxEntry" where
  "start_transaction c now e =
     (let tx = entry_tx e
      in if active (session tx) \<and> authorized (session tx) \<and> \<not> requested (start_rpc (start tx))
         then e\<lparr>entry_tx := tx\<lparr>start := (start tx)\<lparr>start_rpc := setRequested (start_rpc (start tx))\<rparr>\<rparr>,
                 start_at := Some (boundary_now c now)\<rparr>
         else e)"

text \<open>
  Modelled from the spec: \<^verbatim>\<open>end\<close> (section 4.6), whose code is missing: the session is
  no longer active, and a running transaction gets its stop time and
  \<^verbatim>\<open>stop.rpc.requested\<close>. The stop reason and meter values are left out.
\<close>

definition end_transaction :: "Clock \<Rightarrow> tick \<Rightarrow> TxEntry \<Rightarrow> TxEntry" where
  "end_transaction c now e =
     (let tx = endSession (entry_tx e)
      in if isRunning tx
         then e\<lparr>entry_tx := tx\<lparr>stop := (stop tx)\<lparr>stop_rpc := setRequested (stop_rpc (stop tx))\<rparr>\<rparr>,
                 stop_at := Some (boundary_now c now)\<rparr>
         else e\<lparr>entry_tx := tx\<rparr>)"

text \<open>
  Modelled from the spec: the confirmation of StartTransaction (section 4.6), whose code
  is missing: the transaction id of the server is stored and \<^verbatim>\<open>start.rpc.confirmed\<close>
  is set.
\<close>

definition confirm_start :: "int \<Rightarrow> TxEntry \<Rightarrow> TxEntry" where
  "confirm_start txId e =
     (let tx = entry_tx e
      in e\<lparr>entry_tx := tx\<lparr>start := (start tx)\<lparr>start_rpc := confirm (start_rpc (start tx)),
                                              start_server := \<lparr>transactionId = txId\<rparr>\<rparr>\<rparr>\<rparr>)"

text \<open>
  Modelled from the spec: what a reboot leaves of a boundary time (section 4.6, lost
  timestamps; scenarios S5 and S6), whose code is missing. A wall time is kept. A
  tick-anchored time cannot be recovered: in the tests, OCPP_deinitialize followed by
  OCPP_initialize loses the time of a boundary that was recorded while the clock was
  not valid.
\<close>

definition survives_reboot :: "boundary_time option \<Rightarrow> boundary_time option" where
  "survives_reboot b = (case b of Some (Wall t) \<Rightarrow> Some (Wall t) | _ \<Rightarrow> None)"

text \<open>Modelled from the spec: a reboot, as a stored transaction sees it.\<close>

definition reboot :: "TxEntry \<Rightarrow> TxEntry" where
  "reboot e = e\<lparr>start_at := survives_reboot (start_at e), stop_at := survives_reboot (stop_at e)\<rparr>"

text \<open>
  Modelled from the spec: the two boundary requests, with the connector and the
  timestamp they carry; the other fields of the payload are left out.
\<close>

datatype rpc = StartTransaction nat int | StopTransaction nat int

text \<open>
  Modelled from the spec: releasing the boundary requests of a stored transaction once
  the connection is up (sections 4.3 and 4.6), whose code is missing. Nothing is released
  while the clock is invalid or before the transaction has started. A transaction whose
  start time cannot be recovered is dropped. Otherwise tick-anchored times are rewritten
  to wall time, a stop time that cannot be recovered becomes the start time plus one
  second (scenario S6), and the requests that are requested and not confirmed are
  emitted, StartTransaction before StopTransaction; a silent transaction emits none.
  The result is the transaction left in the store, if any, and the requests emitted.
\<close>

definition release :: "Clock \<Rightarrow> TxEntry \<Rightarrow> TxEntry option \<times> rpc list" where
  "release c e =
     (let tx = entry_tx e
      in if \<not> clock_valid c \<or> \<not> requested (start_rpc (start tx)) then (Some e, [])
         else (case start_at e of
                 None \<Rightarrow> (None, [])
               | Some b0 \<Rightarrow>
                   (let t0 = to_wall c b0;
                        t1 = (case stop_at e of None \<Rightarrow> t0 + 1 | Some b1 \<Rightarrow> to_wall c b1);
                        starts = (if \<not> silent tx \<and> \<not> confirmed (start_rpc (start tx))
                                  then [StartTransaction (connectorId tx) t0] else []);
                        stops = (if \<not> silent tx \<and> requested (stop_rpc (stop tx))
                                    \<and> \<not> confirmed (stop_rpc (stop tx))
                                 then [StopTransaction (connectorId tx) t1] else [])
                    in (Some (e\<lparr>start_at := Some (Wall t0),
                                stop_at := (if requested (stop_rpc (stop tx)) then Some (Wall t1)
                                            else stop_at e)\<rparr>),
                        starts @ stops))))"

text \<open>
  Modelled from the spec: whether a slot of the store holds a running transaction, by
  \<open>isRunning\<close> of Transaction.h.
\<close>

definition running :: "TxEntry option \<Rightarrow> bool" where
  "running s = (case s of None \<Rightarrow> False | Some e \<Rightarrow> isRunning (entry_tx e))"

section \<open>Theorems\<close>

text \<open>
  C2. For every transaction record, the derived state predicates are the stated
  combinations of its fields: preparing is session.active and not start.rpc.requested,
  running is start.rpc.requested and not stop.rpc.requested, completed is
  stop.rpc.confirmed, aborted is neither start.rpc.requested nor session.active, and
  active is session.active.
\<close>

theorem transaction_state_predicates:
  "isPreparing tx = (active (session tx) \<and> \<not> requested (start_rpc (start tx)))
   \<and> isRunning tx = (requested (start_rpc (start tx)) \<and> \<not> requested (stop_rpc (stop tx)))
   \<and> isCompleted tx = confirmed (stop_rpc (stop tx))
   \<and> isAborted tx = (\<not> requested (start_rpc (start tx)) \<and> \<not> active (session tx))
   \<and> isActive tx = active (session tx)"
  by (simp add: isPreparing_def isRunning_def isCompleted_def isAborted_def isActive_def
      isRequested_def isConfirmed_def)

text \<open>
  Ending the session of a preparing transaction aborts it: it is then neither active nor
  running.
\<close>

lemma endSession_preparing:
  "isPreparing tx \<Longrightarrow>
     isAborted (endSession tx) \<and> \<not> isRunning (endSession tx) \<and> \<not> isActive (endSession tx)"
  by (simp add: isPreparing_def isAborted_def isRunning_def isActive_def isRequested_def
      endSession_def)

text \<open>
  C8, as the code has it. The handler sets \<open>lastRecv\<close> to the current tick on connect, on
  a ping, on a pong and on a text frame that the receive callback processes
  successfully. A binary frame, a text frame whose processing fails, a disconnect and
  every other event leave \<open>lastRecv\<close> as it was.
\<close>

theorem onEvent_lastRecv:
  "onEvent callback now type payload len old =
     (if type = WStype_CONNECTED \<or> type = WStype_PING \<or> type = WStype_PONG
         \<or> (type = WStype_TEXT \<and> callback payload len)
      then now else old)"
  by (cases type) (simp_all add: onEvent_def)

text \<open>
  C8 as stated says that every received frame, a binary one included, sets \<open>lastRecv\<close> to
  the current tick. A binary frame received at tick 5 by a socket whose \<open>lastRecv\<close> is 0
  leaves it 0, and so does a text frame that the callback fails to process.
\<close>

theorem onEvent_binary_frame_counterexample:
  "is_frame WStype_BIN \<and> onEvent accept_all 5 WStype_BIN ''[2]'' 3 0 = 0
   \<and> is_frame WStype_TEXT \<and> onEvent reject_all 5 WStype_TEXT ''[2]'' 3 0 = 0
   \<and> (0::tick) \<noteq> 5"
  by (simp add: onEvent_def is_frame_def reject_all_def)

text \<open>
  C10. \<open>sendTXT\<close> on a socket that is not connected returns true, calls nothing and
  changes nothing. On a connected socket with a receive callback installed it calls the
  callback once with the message and its length, sets \<open>lastRecv\<close> to the current tick,
  changes nothing else and returns the callback's result. On a connected socket with no
  callback it returns false and changes nothing; this is the only way in which false is
  returned without the callback having been called.
\<close>

theorem sendTXT_cases:
  "(\<not> connected s \<longrightarrow> sendTXT now out s = (True, [], s))
   \<and> (connected s \<and> receiveTXT s = Some cb \<longrightarrow>
        fst (sendTXT now out s) = cb out (length out)
        \<and> fst (snd (sendTXT now out s)) = [(out, length out)]
        \<and> snd (snd (sendTXT now out s)) = s\<lparr>lastRecv := now\<rparr>)
   \<and> (connected s \<and> receiveTXT s = None \<longrightarrow> sendTXT now out s = (False, [], s))
   \<and> (\<not> fst (sendTXT now out s) \<and> fst (snd (sendTXT now out s)) = [] \<longrightarrow>
        connected s \<and> receiveTXT s = None)"
  by (simp add: sendTXT_def split: option.split)

theorem sendTXT_cases_witness:
  "sendTXT 9 ''[2]'' \<lparr>connected = False, receiveTXT = Some accept_all, lastRecv = 4\<rparr>
     = (True, [], \<lparr>connected = False, receiveTXT = Some accept_all, lastRecv = 4\<rparr>)
   \<and> fst (sendTXT 9 ''[2]'' \<lparr>connected = True, receiveTXT = Some reject_all, lastRecv = 4\<rparr>)
       = False
   \<and> fst (snd (sendTXT 9 ''[2]'' \<lparr>connected = True, receiveTXT = Some reject_all, lastRecv = 4\<rparr>))
       = [(''[2]'', 3)]
   \<and> snd (snd (sendTXT 9 ''[2]'' \<lparr>connected = True, receiveTXT = Some reject_all, lastRecv = 4\<rparr>))
       = \<lparr>connected = True, receiveTXT = Some reject_all, lastRecv = 9\<rparr>
   \<and> sendTXT 9 ''[2]'' \<lparr>connected = True, receiveTXT = None, lastRecv = 4\<rparr>
       = (False, [], \<lparr>connected = True, receiveTXT = None, lastRecv = 4\<rparr>)"
  using sendTXT_cases [where s = "\<lparr>connected = False, receiveTXT = Some accept_all, lastRecv = 4\<rparr>"
      and now = 9 and out = "''[2]''" and cb = accept_all]
    sendTXT_cases [where s = "\<lparr>connected = True, receiveTXT = Some reject_all, lastRecv = 4\<rparr>"
      and now = 9 and out = "''[2]''" and cb = reject_all]
    sendTXT_cases [where s = "\<lparr>connected = True, receiveTXT = None, lastRecv = 4\<rparr>"
      and now = 9 and out = "''[2]''" and cb = accept_all]
  by (simp add: reject_all_def)

text \<open>
  The value that \<open>numberOfConnectors_default\<close> yields is handed to a configuration of type
  \<^verbatim>\<open>int\<close>. Read as a signed number it is the same number as long as the argument is at
  most \<open>2 ^ (w - 1)\<close> for the width \<open>w\<close> of \<^verbatim>\<open>unsigned int\<close>.
\<close>

lemma sint_eq_uint_small:
  fixes w :: "'a::len word"
  assumes "uint w < 2 ^ (LENGTH('a) - 1)"
  shows "sint w = uint w"
proof -
  have "- (2 ^ (LENGTH('a) - Suc 0)) \<le> uint w"
    by (rule order_trans [of _ 0]) simp_all
  with assms show ?thesis
    by (simp add: sint_uint signed_take_bit_int_eq_self)
qed

lemma numberOfConnectors_default_as_int:
  fixes numConn :: "'a::len word"
  assumes "uint numConn \<le> 2 ^ (LENGTH('a) - 1)"
  shows "sint (numberOfConnectors_default numConn) = uint (numberOfConnectors_default numConn)"
proof (cases "1 \<le> numConn")
  case True
  then have "uint (numConn - 1) = uint numConn - 1"
    by (simp add: uint_minus_simple_alt)
  with assms have "uint (numConn - 1) < 2 ^ (LENGTH('a) - 1)"
    by simp
  then have "sint (numConn - 1) = uint (numConn - 1)"
    by (rule sint_eq_uint_small)
  with True show ?thesis
    by (simp add: numberOfConnectors_default_def)
next
  case False
  then show ?thesis
    by (simp add: numberOfConnectors_default_def)
qed

text \<open>
  C9. The constructor of \<open>ChargeControlCommon\<close> declares \<open>NumberOfConnectors\<close> with the
  value 0 when its argument \<open>numConn\<close> is 0, and with \<open>numConn - 1\<close> when \<open>numConn\<close> is at
  least 1: the subtraction does not wrap, and the value is one less than the argument,
  so it is not the argument.
\<close>

theorem numberOfConnectors_one_less:
  "(numConn = 0 \<longrightarrow> numberOfConnectors_default numConn = 0)
   \<and> (1 \<le> numConn \<longrightarrow>
        numberOfConnectors_default numConn = numConn - 1
        \<and> uint (numberOfConnectors_default numConn) = uint numConn - 1
        \<and> numberOfConnectors_default numConn \<noteq> numConn)"
proof -
  have "uint (numConn - 1) = uint numConn - 1" if "1 \<le> numConn"
    using that by (simp add: uint_minus_simple_alt)
  then show ?thesis
    by (simp add: numberOfConnectors_default_def)
qed

theorem numberOfConnectors_one_less_witness:
  "numberOfConnectors_default (0 :: 32 word) = 0
   \<and> (1 :: 32 word) \<le> 3
   \<and> numberOfConnectors_default (3 :: 32 word) = 2
   \<and> uint (numberOfConnectors_default (3 :: 32 word)) = 2
   \<and> numberOfConnectors_default (3 :: 32 word) \<noteq> 3"
  using numberOfConnectors_one_less [of "0 :: 32 word"]
    numberOfConnectors_one_less [of "3 :: 32 word"]
  by simp

text \<open>
  The value of the macro \<^verbatim>\<open>INFINITY_THLD\<close>: \<open>OTIME_MAX\<close> is the largest \<^verbatim>\<open>int32_t\<close>, and
  taking 400 days of seconds from it does not wrap around.
\<close>

lemma INFINITY_THLD_sint:
  "sint OTIME_MAX = 2 ^ 31 - 1
   \<and> sint INFINITY_THLD = sint OTIME_MAX - 400 * 86400
   \<and> sint INFINITY_THLD = 2112923647"
  by (simp add: INFINITY_THLD_def OTIME_MAX_def)

subsection \<open>Setting the time\<close>

lemma length_19_cases:
  assumes "length p = 19"
  obtains c0 c1 c2 c3 c4 c5 c6 c7 c8 c9 c10 c11 c12 c13 c14 c15 c16 c17 c18
  where "p = [c0, c1, c2, c3, c4, c5, c6, c7, c8, c9, c10, c11, c12, c13, c14, c15, c16, c17, c18]"
  using assms by (auto simp: length_Suc_conv eval_nat_numeral)

lemma has_date_shape_explicit:
  "has_date_shape [c0, c1, c2, c3, c4, c5, c6, c7, c8, c9, c10, c11, c12, c13, c14, c15, c16, c17, c18]
   = (is_digit c0 \<and> is_digit c1 \<and> is_digit c2 \<and> is_digit c3 \<and> c4 = CHR ''-''
      \<and> is_digit c5 \<and> is_digit c6 \<and> c7 = CHR ''-'' \<and> is_digit c8 \<and> is_digit c9
      \<and> c10 = CHR ''T'' \<and> is_digit c11 \<and> is_digit c12 \<and> c13 = CHR '':''
      \<and> is_digit c14 \<and> is_digit c15 \<and> c16 = CHR '':'' \<and> is_digit c17 \<and> is_digit c18)"
  by (simp add: has_date_shape_def shape_char_def)

lemma date_fields_explicit:
  "date_fields [c0, c1, c2, c3, c4, c5, c6, c7, c8, c9, c10, c11, c12, c13, c14, c15, c16, c17, c18]
   = \<lparr>year = number4 c0 c1 c2 c3, month = number2 c5 c6 - 1, day = number2 c8 c9 - 1,
      hour = number2 c11 c12, minute = number2 c14 c15, second = number2 c17 c18\<rparr>"
  by (simp add: date_fields_def decimal_def number2_def number4_def)

lemma has_date_shape_length: "has_date_shape p \<Longrightarrow> length p = 19"
  unfolding has_date_shape_def by (drule list_all2_lengthD) simp

lemma Timestamp_setTime_prefix:
  assumes "length p = 19"
  shows "Timestamp_setTime in_range (p @ rest) ts =
         (if has_date_shape p \<and> in_range (date_fields p) then (True, date_fields p)
          else (False, ts))"
proof -
  obtain c0 c1 c2 c3 c4 c5 c6 c7 c8 c9 c10 c11 c12 c13 c14 c15 c16 c17 c18
    where p: "p = [c0, c1, c2, c3, c4, c5, c6, c7, c8, c9, c10, c11, c12, c13, c14, c15, c16, c17, c18]"
    using assms by (rule length_19_cases)
  show ?thesis
    unfolding p has_date_shape_explicit date_fields_explicit
    by (simp add: Timestamp_setTime_def Let_def)
qed

lemma Timestamp_setTime_short:
  assumes "length s < 19"
  shows "Timestamp_setTime in_range s ts = (False, ts)" and "\<not> has_date_shape (take 19 s)"
proof -
  show "Timestamp_setTime in_range s ts = (False, ts)"
    using assms by (simp add: Timestamp_setTime_def)
  show "\<not> has_date_shape (take 19 s)"
    using assms has_date_shape_length [of "take 19 s"] by auto
qed

lemma Timestamp_setTime_take:
  "Timestamp_setTime in_range s ts =
     (if has_date_shape (take 19 s) \<and> in_range (date_fields (take 19 s))
      then (True, date_fields (take 19 s)) else (False, ts))"
proof (cases "length s < 19")
  case True
  from Timestamp_setTime_short [OF True] show ?thesis by simp
next
  case False
  then have "length (take 19 s) = 19" by simp
  from Timestamp_setTime_prefix [OF this, of in_range "drop 19 s" ts] show ?thesis by simp
qed

text \<open>
  C6. \<open>Timestamp::setTime\<close> and \<open>Time::setTime\<close> return true exactly when the first 19
  characters of the string have the shape \<^verbatim>\<open>YYYY-MM-DDTHH:MM:SS\<close> and their fields are
  admitted; what follows the 19th character (a fractional part and Z, or nothing) is not
  looked at. On true the timestamp holds the parsed fields and the clock is valid. On
  false the timestamp and the clock are left as they were, so a clock that was invalid
  is still invalid.
\<close>

theorem setTime_accepts:
  "fst (Timestamp_setTime in_range s ts)
     = (has_date_shape (take 19 s) \<and> in_range (date_fields (take 19 s)))
   \<and> fst (Time_setTime in_range now s t)
     = (has_date_shape (take 19 s) \<and> in_range (date_fields (take 19 s)))
   \<and> (fst (Timestamp_setTime in_range s ts) \<longrightarrow>
        snd (Timestamp_setTime in_range s ts) = date_fields (take 19 s))
   \<and> (fst (Time_setTime in_range now s t) \<longrightarrow>
        isValid (snd (Time_setTime in_range now s t))
        \<and> ocpp_basetime (snd (Time_setTime in_range now s t)) = date_fields (take 19 s))
   \<and> (\<not> fst (Timestamp_setTime in_range s ts) \<longrightarrow> snd (Timestamp_setTime in_range s ts) = ts)
   \<and> (\<not> fst (Time_setTime in_range now s t) \<longrightarrow>
        snd (Time_setTime in_range now s t) = t
        \<and> isValid (snd (Time_setTime in_range now s t)) = isValid t)"
  by (simp add: Time_setTime_def Timestamp_setTime_take isValid_def)

theorem setTime_accepts_witness:
  "Timestamp_setTime calendar_ranges ''2023-01-01T00:00:00.000Z'' Timestamp_init
     = (True, \<lparr>year = 2023, month = 0, day = 0, hour = 0, minute = 0, second = 0\<rparr>)
   \<and> isValid (snd (Time_setTime calendar_ranges 7 ''2023-01-01T00:00:00.000Z'' Time_init))
   \<and> fst (Timestamp_setTime calendar_ranges ''2023-02-01T00:00:00'' Timestamp_init)
   \<and> Timestamp_setTime calendar_ranges ''2023-01-01 00:00:00.000Z'' Timestamp_init
     = (False, Timestamp_init)
   \<and> Time_setTime calendar_ranges 7 ''2023-01-01T00:00'' Time_init = (False, Time_init)
   \<and> \<not> isValid (snd (Time_setTime calendar_ranges 7 ''2023-01-01T00:00'' Time_init))"
  using setTime_accepts [of calendar_ranges "''2023-01-01T00:00:00.000Z''" Timestamp_init 7 Time_init]
    setTime_accepts [of calendar_ranges "''2023-02-01T00:00:00''" Timestamp_init 7 Time_init]
    setTime_accepts [of calendar_ranges "''2023-01-01 00:00:00.000Z''" Timestamp_init 7 Time_init]
    setTime_accepts [of calendar_ranges "''2023-01-01T00:00''" Timestamp_init 7 Time_init]
  by (simp add: has_date_shape_def shape_char_def is_digit_def date_fields_def decimal_def
      digit_value_def calendar_ranges_def Time_init_def isValid_def prod_eq_iff)

subsection \<open>Transactions before the clock is valid\<close>

lemma to_wall_backdated:
  assumes "event_tick \<le> set_tick"
  shows "to_wall (Clock_set clock_set_ts set_tick c) (Anchored event_tick)
           = clock_set_ts - int ((set_tick - event_tick) div 1000)"
  using assms by (auto simp add: to_wall_def Clock_time_def Clock_set_def)

lemma backdated_within_one_second:
  "\<bar>real_of_int (clock_set_ts - int (d div 1000)) - (real_of_int clock_set_ts - real d / 1000)\<bar> \<le> 1"
proof -
  have "d = 1000 * (d div 1000) + d mod 1000" by simp
  then have "real d = 1000 * real (d div 1000) + real (d mod 1000)"
    by (metis of_nat_add of_nat_mult of_nat_numeral)
  moreover have "real (d mod 1000) < 1000" by simp
  moreover have "0 \<le> real (d mod 1000)" by simp
  ultimately show ?thesis by (simp add: field_simps)
qed

text \<open>
  C1. Let the clock be set to \<open>clock_set_ts\<close> at tick \<open>set_tick\<close>. A boundary that occurred
  at a tick \<open>event_tick\<close> not after \<open>set_tick\<close> while the clock was invalid is rewritten to
  \<open>clock_set_ts - (set_tick - event_tick) div 1000\<close>, which is within one second of
  \<open>clock_set_ts\<close> minus the \<open>(set_tick - event_tick) / 1000\<close> seconds that have passed. The
  StartTransaction and StopTransaction requests released then carry these timestamps:
  for a transaction that has started and not stopped, for one that has started and
  stopped, and for one whose start was confirmed earlier and whose stop is anchored.
\<close>

theorem preboot_timestamps_backdated:
  fixes e :: TxEntry and c :: Clock and clock_set_ts :: int
    and set_tick start_tick stop_tick :: tick
  defines "tx \<equiv> entry_tx e"
  defines "clk \<equiv> Clock_set clock_set_ts set_tick c"
  defines "T1 \<equiv> to_wall clk (Anchored start_tick)"
  defines "T2 \<equiv> to_wall clk (Anchored stop_tick)"
  shows
  "(start_tick \<le> set_tick \<longrightarrow>
      T1 = clock_set_ts - int ((set_tick - start_tick) div 1000)
      \<and> \<bar>real_of_int T1 - (real_of_int clock_set_ts - real (set_tick - start_tick) / 1000)\<bar> \<le> 1)
   \<and> (stop_tick \<le> set_tick \<longrightarrow>
      T2 = clock_set_ts - int ((set_tick - stop_tick) div 1000)
      \<and> \<bar>real_of_int T2 - (real_of_int clock_set_ts - real (set_tick - stop_tick) / 1000)\<bar> \<le> 1)
   \<and> (\<not> silent tx \<and> requested (start_rpc (start tx)) \<and> \<not> confirmed (start_rpc (start tx))
        \<and> start_at e = Some (Anchored start_tick) \<and> \<not> requested (stop_rpc (stop tx)) \<longrightarrow>
      snd (release clk e) = [StartTransaction (connectorId tx) T1])
   \<and> (\<not> silent tx \<and> requested (start_rpc (start tx)) \<and> \<not> confirmed (start_rpc (start tx))
        \<and> start_at e = Some (Anchored start_tick)
        \<and> requested (stop_rpc (stop tx)) \<and> \<not> confirmed (stop_rpc (stop tx))
        \<and> stop_at e = Some (Anchored stop_tick) \<longrightarrow>
      snd (release clk e) = [StartTransaction (connectorId tx) T1, StopTransaction (connectorId tx) T2])
   \<and> (\<not> silent tx \<and> requested (start_rpc (start tx)) \<and> confirmed (start_rpc (start tx))
        \<and> start_at e = Some (Wall start_wall)
        \<and> requested (stop_rpc (stop tx)) \<and> \<not> confirmed (stop_rpc (stop tx))
        \<and> stop_at e = Some (Anchored stop_tick) \<longrightarrow>
      snd (release clk e) = [StopTransaction (connectorId tx) T2])"
proof -
  have valid: "clock_valid clk"
    by (simp add: clk_def Clock_set_def)
  have 1: "T1 = clock_set_ts - int ((set_tick - start_tick) div 1000)" if "start_tick \<le> set_tick"
    unfolding T1_def clk_def using that by (rule to_wall_backdated)
  have 2: "T2 = clock_set_ts - int ((set_tick - stop_tick) div 1000)" if "stop_tick \<le> set_tick"
    unfolding T2_def clk_def using that by (rule to_wall_backdated)
  have b1: "start_tick \<le> set_tick \<longrightarrow>
      T1 = clock_set_ts - int ((set_tick - start_tick) div 1000)
      \<and> \<bar>real_of_int T1 - (real_of_int clock_set_ts - real (set_tick - start_tick) / 1000)\<bar> \<le> 1"
  proof (intro impI conjI)
    assume le: "start_tick \<le> set_tick"
    show "T1 = clock_set_ts - int ((set_tick - start_tick) div 1000)"
      by (rule 1 [OF le])
    show "\<bar>real_of_int T1 - (real_of_int clock_set_ts - real (set_tick - start_tick) / 1000)\<bar> \<le> 1"
      unfolding 1 [OF le] by (rule backdated_within_one_second)
  qed
  have b2: "stop_tick \<le> set_tick \<longrightarrow>
      T2 = clock_set_ts - int ((set_tick - stop_tick) div 1000)
      \<and> \<bar>real_of_int T2 - (real_of_int clock_set_ts - real (set_tick - stop_tick) / 1000)\<bar> \<le> 1"
  proof (intro impI conjI)
    assume le: "stop_tick \<le> set_tick"
    show "T2 = clock_set_ts - int ((set_tick - stop_tick) div 1000)"
      by (rule 2 [OF le])
    show "\<bar>real_of_int T2 - (real_of_int clock_set_ts - real (set_tick - stop_tick) / 1000)\<bar> \<le> 1"
      unfolding 2 [OF le] by (rule backdated_within_one_second)
  qed
  have r: "(\<not> silent tx \<and> requested (start_rpc (start tx)) \<and> \<not> confirmed (start_rpc (start tx))
        \<and> start_at e = Some (Anchored start_tick) \<and> \<not> requested (stop_rpc (stop tx)) \<longrightarrow>
      snd (release clk e) = [StartTransaction (connectorId tx) T1])
   \<and> (\<not> silent tx \<and> requested (start_rpc (start tx)) \<and> \<not> confirmed (start_rpc (start tx))
        \<and> start_at e = Some (Anchored start_tick)
        \<and> requested (stop_rpc (stop tx)) \<and> \<not> confirmed (stop_rpc (stop tx))
        \<and> stop_at e = Some (Anchored stop_tick) \<longrightarrow>
      snd (release clk e) = [StartTransaction (connectorId tx) T1, StopTransaction (connectorId tx) T2])
   \<and> (\<not> silent tx \<and> requested (start_rpc (start tx)) \<and> confirmed (start_rpc (start tx))
        \<and> start_at e = Some (Wall start_wall)
        \<and> requested (stop_rpc (stop tx)) \<and> \<not> confirmed (stop_rpc (stop tx))
        \<and> stop_at e = Some (Anchored stop_tick) \<longrightarrow>
      snd (release clk e) = [StopTransaction (connectorId tx) T2])"
    using valid by (simp add: release_def Let_def T1_def T2_def tx_def to_wall_def)
  from b1 b2 r show ?thesis by blast
qed

text \<open>
  Scenario S4: a transaction begins at tick 500 and ends an hour later, both before the
  clock is set; another hour later the clock is set to 2023-01-01T00:00:00Z, which is
  1672531200 seconds after the epoch.
\<close>

theorem preboot_timestamps_backdated_witness:
  "snd (release (Clock_set 1672531200 7200500 Clock_init)
         (end_transaction Clock_init 3600500
           (start_transaction Clock_init 500 (begin_authorized 1 0 ''mIdTag''))))
     = [StartTransaction 1 (1672531200 - 7200), StopTransaction 1 (1672531200 - 3600)]
   \<and> snd (release (Clock_set 1672531200 7200500 Clock_init)
           (start_transaction Clock_init 500 (begin_authorized 1 0 ''mIdTag'')))
     = [StartTransaction 1 (1672531200 - 7200)]
   \<and> snd (release (Clock_set 1672531200 7200500 Clock_init)
           (end_transaction Clock_init 3600500
             (confirm_start 1
               (start_transaction (Clock_set 1672000000 0 Clock_init) 500
                 (begin_authorized 1 0 ''mIdTag'')))))
     = [StopTransaction 1 (1672531200 - 3600)]
   \<and> \<bar>real_of_int (1672531200 - 7200) - (1672531200 - real (7200500 - 500) / 1000)\<bar> \<le> 1"
  using preboot_timestamps_backdated [where e = "end_transaction Clock_init 3600500
           (start_transaction Clock_init 500 (begin_authorized 1 0 ''mIdTag''))"
      and c = Clock_init and clock_set_ts = 1672531200 and set_tick = 7200500
      and start_tick = 500 and stop_tick = 3600500 and start_wall = 0]
    preboot_timestamps_backdated [where e = "start_transaction Clock_init 500 (begin_authorized 1 0 ''mIdTag'')"
      and c = Clock_init and clock_set_ts = 1672531200 and set_tick = 7200500
      and start_tick = 500 and stop_tick = 3600500 and start_wall = 0]
    preboot_timestamps_backdated [where e = "end_transaction Clock_init 3600500
             (confirm_start 1
               (start_transaction (Clock_set 1672000000 0 Clock_init) 500
                 (begin_authorized 1 0 ''mIdTag'')))"
      and c = Clock_init and clock_set_ts = 1672531200 and set_tick = 7200500
      and start_tick = 500 and stop_tick = 3600500 and start_wall = 1672000000]
  by (simp add: begin_authorized_def start_transaction_def end_transaction_def confirm_start_def
      Transaction_init_def RpcSync_init_def setRequested_def confirm_def endSession_def isRunning_def
      isRequested_def boundary_now_def Clock_init_def Clock_set_def Clock_time_def to_wall_def Let_def)

text \<open>
  C3. A transaction that was started while the clock was invalid has a tick-anchored
  start time, which a reboot loses. Once the clock is valid, releasing such a transaction
  emits neither StartTransaction nor StopTransaction and leaves no transaction in the
  store, so none is running. This holds for every stored transaction whose start was
  requested with a tick-anchored time, and in particular for one begun and started (and
  possibly ended) before the reboot.
\<close>

theorem lost_start_timestamp_dropped:
  "(clock_valid c \<and> requested (start_rpc (start (entry_tx e)))
      \<and> (start_at e = None \<or> start_at e = Some (Anchored k)) \<longrightarrow>
      release c (reboot e) = (None, []) \<and> \<not> running (fst (release c (reboot e))))
   \<and> (\<not> clock_valid c0 \<and> clock_valid c \<longrightarrow>
      running (Some (start_transaction c0 k (begin_authorized cId nr tag)))
      \<and> release c (reboot (start_transaction c0 k (begin_authorized cId nr tag))) = (None, [])
      \<and> release c (reboot (end_transaction c0 k' (start_transaction c0 k (begin_authorized cId nr tag))))
          = (None, []))"
  by (auto simp add: release_def reboot_def survives_reboot_def running_def Let_def
      start_transaction_def end_transaction_def boundary_now_def
      begin_authorized_def Transaction_init_def RpcSync_init_def setRequested_def
      endSession_def isRunning_def isRequested_def)

text \<open>Scenario S5, with the clock set to 2023-01-01T00:00:00Z after the reboot.\<close>

theorem lost_start_timestamp_dropped_witness:
  "\<not> clock_valid Clock_init \<and> clock_valid (Clock_set 1672531200 900 Clock_init)
   \<and> requested (start_rpc (start (entry_tx
         (start_transaction Clock_init 500 (begin_authorized 1 0 ''mIdTag'')))))
   \<and> start_at (start_transaction Clock_init 500 (begin_authorized 1 0 ''mIdTag''))
       = Some (Anchored 500)
   \<and> running (Some (start_transaction Clock_init 500 (begin_authorized 1 0 ''mIdTag'')))
   \<and> release (Clock_set 1672531200 900 Clock_init)
         (reboot (start_transaction Clock_init 500 (begin_authorized 1 0 ''mIdTag'')))
       = (None, [])
   \<and> \<not> running (fst (release (Clock_set 1672531200 900 Clock_init)
         (reboot (start_transaction Clock_init 500 (begin_authorized 1 0 ''mIdTag'')))))
   \<and> release (Clock_set 1672531200 900 Clock_init)
         (reboot (end_transaction Clock_init 600
           (start_transaction Clock_init 500 (begin_authorized 1 0 ''mIdTag''))))
       = (None, [])"
proof -
  have h: "\<not> clock_valid Clock_init \<and> clock_valid (Clock_set 1672531200 900 Clock_init)"
    by (simp add: Clock_init_def Clock_set_def)
  have g: "requested (start_rpc (start (entry_tx
         (start_transaction Clock_init 500 (begin_authorized 1 0 ''mIdTag'')))))
      \<and> start_at (start_transaction Clock_init 500 (begin_authorized 1 0 ''mIdTag''))
          = Some (Anchored 500)"
    by (simp add: start_transaction_def begin_authorized_def Transaction_init_def RpcSync_init_def
        setRequested_def boundary_now_def Clock_init_def Let_def)
  from h g lost_start_timestamp_dropped [where ?c0.0 = Clock_init
      and c = "Clock_set 1672531200 900 Clock_init" and k = 500 and k' = 600
      and cId = 1 and nr = 0 and tag = "''mIdTag''"
      and e = "start_transaction Clock_init 500 (begin_authorized 1 0 ''mIdTag'')"]
  show ?thesis by blast
qed

text \<open>
  C4. For a transaction whose start time is a wall time and whose stop was requested
  with a time that the reboot loses, the StopTransaction released once the clock is
  valid carries the start time plus one second, and it follows the StartTransaction if
  that was not confirmed yet. In particular (scenario S6): started with a valid clock and
  confirmed, rebooted, ended while the clock was invalid, rebooted again.
\<close>

theorem lost_stop_timestamp_start_plus_one:
  "(clock_valid c \<and> \<not> silent (entry_tx e)
      \<and> requested (start_rpc (start (entry_tx e))) \<and> start_at e = Some (Wall start_wall)
      \<and> requested (stop_rpc (stop (entry_tx e))) \<and> \<not> confirmed (stop_rpc (stop (entry_tx e)))
      \<and> (stop_at e = None \<or> stop_at e = Some (Anchored k)) \<longrightarrow>
      snd (release c (reboot e))
        = (if confirmed (start_rpc (start (entry_tx e))) then []
           else [StartTransaction (connectorId (entry_tx e)) start_wall])
          @ [StopTransaction (connectorId (entry_tx e)) (start_wall + 1)])
   \<and> (clock_valid c1 \<and> \<not> clock_valid c2 \<and> clock_valid c3 \<longrightarrow>
      start_at (start_transaction c1 k1 (begin_authorized cId nr tag)) = Some (Wall (Clock_time c1 k1))
      \<and> running (Some (reboot (confirm_start txId (start_transaction c1 k1 (begin_authorized cId nr tag)))))
      \<and> snd (release c3
            (reboot (end_transaction c2 k2
              (reboot (confirm_start txId (start_transaction c1 k1 (begin_authorized cId nr tag)))))))
          = [StopTransaction cId (Clock_time c1 k1 + 1)])"
  by (auto simp add: release_def reboot_def survives_reboot_def running_def Let_def
      start_transaction_def end_transaction_def boundary_now_def confirm_start_def
      begin_authorized_def Transaction_init_def RpcSync_init_def setRequested_def confirm_def
      endSession_def isRunning_def isRequested_def to_wall_def)

text \<open>
  Scenario S6: the clock is set to 2023-02-01T00:00:00Z, which is 1675209600 seconds
  after the epoch, and the transaction starts within the same second.
\<close>

theorem lost_stop_timestamp_start_plus_one_witness:
  "clock_valid (Clock_set 1675209600 100 Clock_init) \<and> \<not> clock_valid Clock_init
   \<and> clock_valid (Clock_set 1675209700 900 Clock_init)
   \<and> Clock_time (Clock_set 1675209600 100 Clock_init) 500 = 1675209600
   \<and> start_at (end_transaction Clock_init 700
         (reboot (start_transaction (Clock_set 1675209600 100 Clock_init) 500
           (begin_authorized 1 0 ''mIdTag''))))
       = Some (Wall 1675209600)
   \<and> stop_at (end_transaction Clock_init 700
         (reboot (start_transaction (Clock_set 1675209600 100 Clock_init) 500
           (begin_authorized 1 0 ''mIdTag''))))
       = Some (Anchored 700)
   \<and> snd (release (Clock_set 1675209700 900 Clock_init)
         (reboot (end_transaction Clock_init 700
           (reboot (start_transaction (Clock_set 1675209600 100 Clock_init) 500
             (begin_authorized 1 0 ''mIdTag''))))))
       = [StartTransaction 1 1675209600, StopTransaction 1 (1675209600 + 1)]
   \<and> snd (release (Clock_set 1675209700 900 Clock_init)
         (reboot (end_transaction Clock_init 700
           (reboot (confirm_start 1
             (start_transaction (Clock_set 1675209600 100 Clock_init) 500
               (begin_authorized 1 0 ''mIdTag'')))))))
     = [StopTransaction 1 (1675209600 + 1)]"
proof -
  let ?e = "end_transaction Clock_init 700
         (reboot (start_transaction (Clock_set 1675209600 100 Clock_init) 500
           (begin_authorized 1 0 ''mIdTag'')))"
  have h: "clock_valid (Clock_set 1675209600 100 Clock_init) \<and> \<not> clock_valid Clock_init
      \<and> clock_valid (Clock_set 1675209700 900 Clock_init)"
    by (simp add: Clock_init_def Clock_set_def)
  have t: "Clock_time (Clock_set 1675209600 100 Clock_init) 500 = 1675209600"
    by (simp add: Clock_time_def Clock_init_def Clock_set_def)
  have g: "\<not> silent (entry_tx ?e) \<and> requested (start_rpc (start (entry_tx ?e)))
      \<and> \<not> confirmed (start_rpc (start (entry_tx ?e)))
      \<and> start_at ?e = Some (Wall 1675209600)
      \<and> requested (stop_rpc (stop (entry_tx ?e))) \<and> \<not> confirmed (stop_rpc (stop (entry_tx ?e)))
      \<and> stop_at ?e = Some (Anchored 700) \<and> connectorId (entry_tx ?e) = 1"
    by (simp add: end_transaction_def reboot_def survives_reboot_def start_transaction_def
        begin_authorized_def Transaction_init_def RpcSync_init_def setRequested_def endSession_def
        isRunning_def isRequested_def boundary_now_def Clock_init_def Clock_set_def Clock_time_def
        Let_def)
  note inst = lost_stop_timestamp_start_plus_one [where ?c1.0 = "Clock_set 1675209600 100 Clock_init"
      and ?c2.0 = Clock_init and ?c3.0 = "Clock_set 1675209700 900 Clock_init"
      and ?k1.0 = 500 and ?k2.0 = 700 and cId = 1 and nr = 0 and tag = "''mIdTag''" and txId = 1
      and c = "Clock_set 1675209700 900 Clock_init" and e = ?e and k = 700
      and start_wall = 1675209600]
  from h inst
  have a: "snd (release (Clock_set 1675209700 900 Clock_init)
         (reboot (end_transaction Clock_init 700
           (reboot (confirm_start 1
             (start_transaction (Clock_set 1675209600 100 Clock_init) 500
               (begin_authorized 1 0 ''mIdTag'')))))))
     = [StopTransaction 1 (Clock_time (Clock_set 1675209600 100 Clock_init) 500 + 1)]"
    by blast
  from h g inst
  have b: "snd (release (Clock_set 1675209700 900 Clock_init) (reboot ?e))
     = (if confirmed (start_rpc (start (entry_tx ?e))) then []
           else [StartTransaction (connectorId (entry_tx ?e)) 1675209600])
          @ [StopTransaction (connectorId (entry_tx ?e)) (1675209600 + 1)]"
    by blast
  from a b g h t show ?thesis by simp
qed

end
